theory Spec2Isabelle
  imports Main "HOL-Library.Word" "HOL-Library.Signed_Division"
begin

unbundle bit_operations_syntax

section \<open>Return codes, guest memory and the bounds contract\<close>

text \<open>
  The enumeration \<open>hook_api::hook_return_code\<close>. Its declaration (with the numeric value of
  every code) lives in \<open>applyHook.h\<close>, which is not among the sources; host calls therefore
  return \<open>Inl code\<close> for an enumerator and \<open>Inr v\<close> for a computed non-negative value, and the
  few places where the C++ stores or does arithmetic on a code's number take the numbering
  \<open>rc\<close> as a parameter.
\<close>

datatype hook_return_code =
    SUCCESS | OUT_OF_BOUNDS | INTERNAL_ERROR | TOO_BIG | TOO_SMALL | DOESNT_EXIST
  | NO_FREE_SLOTS | INVALID_ARGUMENT | ALREADY_SET | PREREQUISITE_NOT_MET | FEE_TOO_LARGE
  | EMISSION_FAILURE | TOO_MANY_NONCES | TOO_MANY_EMITTED_TXN | NOT_IMPLEMENTED
  | INVALID_ACCOUNT | GUARD_VIOLATION | INVALID_FIELD | PARSE_ERROR | RC_ROLLBACK | RC_ACCEPT
  | NO_SUCH_KEYLET | NOT_AN_ARRAY | NOT_AN_OBJECT | INVALID_FLOAT | DIVISION_BY_ZERO
  | MANTISSA_OVERSIZED | EXPONENT_OVERSIZED | EXPONENT_UNDERSIZED | OVERFLOW
  | NOT_AN_AMOUNT | CANT_RETURN_NEGATIVE

datatype ExitType = ROLLBACK | ACCEPT | WASM_ERROR

type_synonym u8 = "8 word"
type_synonym u16 = "16 word"
type_synonym u32 = "32 word"
type_synonym u64 = "64 word"
type_synonym i32 = "32 word"
type_synonym i64 = "64 word"
type_synonym bytes = "u8 list"

text \<open>The guest's linear memory; \<open>memory_length\<close> of \<open>HOOK_SETUP\<close> is its length.\<close>

type_synonym memory = "u8 list"

text \<open>
  \<open>NOT_IN_BOUNDS(ptr, len, memory_length)\<close>: the pointer is a \<open>uint32_t\<close>, the sum is taken
  in \<open>uint64_t\<close>. The length is a \<open>uint32_t\<close> argument or a small constant.
\<close>

definition NOT_IN_BOUNDS :: "u32 \<Rightarrow> nat \<Rightarrow> nat \<Rightarrow> bool" where
  "NOT_IN_BOUNDS ptr len memory_length =
     (unat ptr > memory_length \<or> (unat ptr + len) mod 2 ^ 64 > memory_length)"

text \<open>\<open>memoryCtx.setBytes(src, dst_ptr, 0, n)\<close>: the first \<open>n\<close> bytes of \<open>src\<close> land at \<open>dst_ptr\<close>.\<close>

definition setBytes :: "memory \<Rightarrow> bytes \<Rightarrow> nat \<Rightarrow> nat \<Rightarrow> memory" where
  "setBytes mem src dst_ptr n =
     take dst_ptr mem @ take n src @ drop (dst_ptr + n) mem"

text \<open>
  \<open>WRITE_WASM_MEMORY\<close>: writes \<open>min(host_src_len, guest_dst_len)\<close> bytes and adds that number
  to \<open>bytes_written\<close>, or makes the host call return \<open>OUT_OF_BOUNDS\<close> (\<open>Inl\<close>).
\<close>

definition WRITE_WASM_MEMORY ::
  "memory \<Rightarrow> nat \<Rightarrow> nat \<Rightarrow> nat \<Rightarrow> bytes \<Rightarrow> hook_return_code + (memory \<times> nat)" where
  "WRITE_WASM_MEMORY mem bytes_written guest_dst_ptr guest_dst_len host_src =
     (let bytes_to_write = min (length host_src) guest_dst_len in
      if guest_dst_ptr + bytes_to_write > length mem then Inl OUT_OF_BOUNDS
      else Inr (setBytes mem host_src guest_dst_ptr bytes_to_write,
                bytes_written + bytes_to_write))"

definition WRITE_WASM_MEMORY_AND_RETURN ::
  "memory \<Rightarrow> nat \<Rightarrow> nat \<Rightarrow> bytes \<Rightarrow> (hook_return_code + int) \<times> memory" where
  "WRITE_WASM_MEMORY_AND_RETURN mem guest_dst_ptr guest_dst_len host_src =
     (case WRITE_WASM_MEMORY mem 0 guest_dst_ptr guest_dst_len host_src of
        Inl e \<Rightarrow> (Inl e, mem)
      | Inr (mem', bytes_written) \<Rightarrow> (Inr (int bytes_written), mem'))"

text \<open>Reading \<open>len\<close> bytes at \<open>memory + ptr\<close>.\<close>

definition read_mem :: "memory \<Rightarrow> nat \<Rightarrow> nat \<Rightarrow> bytes" where
  "read_mem mem ptr len = take len (drop ptr mem)"

section \<open>The hook context\<close>

text \<open>
  \<open>HookResult\<close> and \<open>HookContext\<close> are declared in the missing header; the fields are the
  ones the source file reads and writes. Account ids are 20 bytes, hashes and state keys 32.
  \<open>changedState\<close> is a \<open>std::map\<close> from key to (modified, data); it is kept as the list of
  its entries in ascending key order, the order in which the map is iterated.
  The guard counters map a 32-bit guard id to a 32-bit unsigned iteration count
  (\<open>std::map<uint32_t, uint32_t>\<close> in the header), so \<open>guard_map[id]++\<close> wraps at \<open>2^32\<close>.
\<close>

record HookResult =
  hookSetTxnID :: bytes
  hookHash :: bytes
  account :: bytes
  otxnAccount :: bytes
  changedState :: "(bytes \<times> bool \<times> bytes) list"
  emittedTxn :: "bytes list"
  exitType :: ExitType
  exitReason :: bytes
  exitCode :: i64
  instructionCount :: u64

record HookContext =
  expected_etxn_count :: int
  nonce_counter :: nat
  nonce_used :: "bytes set"
  generation :: u32
  burden :: i64
  fee_base :: i64
  guard_map :: "u32 \<rightharpoonup> u32"
  result :: HookResult

section \<open>hook_account\<close>

definition hook_account ::
  "HookContext \<Rightarrow> memory \<Rightarrow> u32 \<Rightarrow> u32 \<Rightarrow> (hook_return_code + int) \<times> memory" where
  "hook_account hookCtx mem write_ptr ptr_len =
     (if NOT_IN_BOUNDS write_ptr 20 (length mem) then (Inl OUT_OF_BOUNDS, mem)
      else WRITE_WASM_MEMORY_AND_RETURN mem (unat write_ptr) 20
             (take 20 (account (result hookCtx))))"

section \<open>Guard metering\<close>

text \<open>
  \<open>_g\<close>: the counter of \<open>guard_id\<close> starts at 1 or is incremented (a 32-bit increment, which
  wraps), then compared with \<open>maxitr\<close> as unsigned 32-bit numbers.
\<close>

definition hook_g :: "(hook_return_code \<Rightarrow> i64) \<Rightarrow> HookContext \<Rightarrow> u32 \<Rightarrow> u32 \<Rightarrow>
    (hook_return_code + int) \<times> HookContext" where
  "hook_g rc hookCtx guard_id maxitr =
     (let gm = (case guard_map hookCtx guard_id of
                  None \<Rightarrow> (guard_map hookCtx)(guard_id \<mapsto> 1)
                | Some c \<Rightarrow> (guard_map hookCtx)(guard_id \<mapsto> c + 1));
          ctx1 = hookCtx\<lparr>guard_map := gm\<rparr> in
      if the (gm guard_id) > maxitr
      then (Inl RC_ROLLBACK,
            ctx1\<lparr>result := (result ctx1)\<lparr>exitType := ROLLBACK, exitCode := rc GUARD_VIOLATION\<rparr>\<rparr>)
      else (Inr 1, ctx1))"

text \<open>\<open>n\<close> calls of \<open>_g(id, maxitr)\<close> in sequence: the return values and the final context.\<close>

fun g_calls :: "(hook_return_code \<Rightarrow> i64) \<Rightarrow> HookContext \<Rightarrow> u32 \<Rightarrow> u32 \<Rightarrow> nat \<Rightarrow>
    (hook_return_code + int) list \<times> HookContext" where
  "g_calls rc hookCtx guard_id maxitr 0 = ([], hookCtx)"
| "g_calls rc hookCtx guard_id maxitr (Suc k) =
     (let (rs, ctx1) = g_calls rc hookCtx guard_id maxitr k;
          (r, ctx2) = hook_g rc ctx1 guard_id maxitr
      in (rs @ [r], ctx2))"

section \<open>The decimal-float library (namespace hook_float)\<close>

definition minMantissa :: i64 where "minMantissa = 1000000000000000"
definition maxMantissa :: i64 where "maxMantissa = 9999999999999999"
definition minExponent :: i32 where "minExponent = - 96"
definition maxExponent :: i32 where "maxExponent = 80"

text \<open>
  \<open>get_exponent\<close> returns an \<open>int32_t\<close>, so the code \<open>INVALID_FLOAT\<close> is truncated to 32 bits;
  \<open>get_mantissa\<close> returns a \<open>uint64_t\<close>.
\<close>

definition get_exponent :: "(hook_return_code \<Rightarrow> i64) \<Rightarrow> i64 \<Rightarrow> i32" where
  "get_exponent rc float1 =
     (if float1 <s 0 then ucast (rc INVALID_FLOAT)
      else if float1 = 0 then 0
      else ucast (drop_bit 54 float1 AND 0xFF) - 97)"

definition get_mantissa :: "(hook_return_code \<Rightarrow> i64) \<Rightarrow> i64 \<Rightarrow> u64" where
  "get_mantissa rc float1 =
     (if float1 <s 0 then rc INVALID_FLOAT
      else if float1 = 0 then 0
      else float1 - push_bit 54 (drop_bit 54 float1))"

definition is_negative :: "i64 \<Rightarrow> bool" where
  "is_negative float1 = (signed_drop_bit 62 float1 AND 1 = 0)"

definition invert_sign :: "i64 \<Rightarrow> i64" where
  "invert_sign float1 = float1 XOR push_bit 62 1"

definition set_sign :: "i64 \<Rightarrow> bool \<Rightarrow> i64" where
  "set_sign float1 set_negative =
     (let neg = is_negative float1 in
      if (neg \<and> set_negative) \<or> (\<not> neg \<and> \<not> set_negative) then float1
      else invert_sign float1)"

text \<open>\<open>mantissa > maxMantissa\<close> compares a \<open>uint64_t\<close> with an \<open>int64_t\<close>: unsigned.\<close>

definition set_mantissa :: "(hook_return_code \<Rightarrow> i64) \<Rightarrow> i64 \<Rightarrow> u64 \<Rightarrow> i64" where
  "set_mantissa rc float1 mantissa =
     (if mantissa > maxMantissa then rc MANTISSA_OVERSIZED
      else float1 - get_mantissa rc float1 + mantissa)"

definition set_exponent :: "(hook_return_code \<Rightarrow> i64) \<Rightarrow> i64 \<Rightarrow> i32 \<Rightarrow> i64" where
  "set_exponent rc float1 exponent =
     (if maxExponent <s exponent then rc EXPONENT_OVERSIZED
      else if exponent <s minExponent then rc EXPONENT_UNDERSIZED
      else (float1 AND NOT (push_bit 54 0xFF)) + push_bit 54 (scast (exponent + 97)))"

text \<open>\<open>make_float(ripple::IOUAmount&)\<close>, given the amount's mantissa and exponent.\<close>

definition make_float_amt :: "(hook_return_code \<Rightarrow> i64) \<Rightarrow> i64 \<Rightarrow> i32 \<Rightarrow> i64" where
  "make_float_amt rc amt_mantissa amt_exponent =
     (let neg = amt_mantissa <s 0;
          man_out = (if neg then amt_mantissa * (- 1) else amt_mantissa);
          float_out = set_sign 0 neg;
          float_out = set_mantissa rc float_out man_out
      in set_exponent rc float_out amt_exponent)"

definition make_float :: "(hook_return_code \<Rightarrow> i64) \<Rightarrow> i64 \<Rightarrow> i32 \<Rightarrow> i64" where
  "make_float rc mantissa exponent =
     (if mantissa = 0 then 0
      else if maxMantissa <s mantissa then rc MANTISSA_OVERSIZED
      else if maxExponent <s exponent then rc EXPONENT_OVERSIZED
      else if exponent <s minExponent then rc EXPONENT_UNDERSIZED
      else
        let neg = mantissa <s 0;
            mantissa = (if neg then mantissa * (- 1) else mantissa);
            out = set_mantissa rc 0 mantissa;
            out = set_exponent rc out exponent
        in set_sign out neg)"

text \<open>
  The two normalisation loops shared by both \<open>float_set\<close> functions; \<open>None\<close> is the
  \<open>return INVALID_FLOAT\<close> inside the loop. Signed overflow wraps.
\<close>

function normalize_up :: "i64 \<Rightarrow> i32 \<Rightarrow> (i64 \<times> i32) option" where
  "normalize_up mantissa exp =
     (if mantissa <s minMantissa then
        (if exp - 1 <s minExponent then None else normalize_up (mantissa * 10) (exp - 1))
      else Some (mantissa, exp))"
  by pat_completeness auto
termination
proof (relation "measure (\<lambda>(m, e). if e = - (2 ^ 31) then 2 ^ 32 else nat (sint e + 2 ^ 31))")
  show "wf (measure (\<lambda>(m::i64, e::i32). if e = - (2 ^ 31) then 2 ^ 32 else nat (sint e + 2 ^ 31)))"
    by simp
next
  fix mantissa :: i64 and exp :: i32
  assume "mantissa <s minMantissa" and c: "\<not> exp - 1 <s minExponent"
  show "((mantissa * 10, exp - 1), (mantissa, exp))
         \<in> measure (\<lambda>(m, e). if e = - (2 ^ 31) then 2 ^ 32 else nat (sint e + 2 ^ 31))"
  proof (cases "exp = - (2 ^ 31)")
    case True
    then show ?thesis using sint_lt [of "exp - 1"] sint_ge [of "exp - 1"] by simp
  next
    case False
    have "sint exp \<noteq> - (2 ^ 31)"
    proof
      assume "sint exp = - (2 ^ 31)"
      then have "exp = - (2 ^ 31)" by (intro signed_word_eqI) simp
      with False show False by simp
    qed
    then have s: "sint (exp - 1) = sint exp - 1"
      using sint_ge [of exp] sint_lt [of exp]
      by (simp add: sint_word_ariths signed_take_bit_int_eq_self)
    from c have ge: "- 96 \<le> sint (exp - 1)"
      by (simp add: word_sless_alt minExponent_def)
    with s have "- 95 \<le> sint exp" by simp
    moreover have "exp - 1 \<noteq> - (2 ^ 31)"
    proof
      assume h: "exp - 1 = - (2 ^ 31)"
      have "sint (exp - 1) = sint (- (2 ^ 31) :: i32)" by (simp only: h)
      then have "sint (exp - 1) = - (2 ^ 31)" by simp
      with ge show False by simp
    qed
    ultimately show ?thesis using False s by simp
  qed
qed

function normalize_down :: "i64 \<Rightarrow> i32 \<Rightarrow> (i64 \<times> i32) option" where
  "normalize_down mantissa exp =
     (if maxMantissa <s mantissa then
        (if maxExponent <s exp + 1 then None
         else normalize_down (word_of_int (sint mantissa sdiv 10)) (exp + 1))
      else Some (mantissa, exp))"
  by pat_completeness auto
termination
proof (relation "measure (\<lambda>(m, e). if e = 2 ^ 31 - 1 then 2 ^ 32 else nat (2 ^ 31 - 1 - sint e))")
  show "wf (measure (\<lambda>(m::i64, e::i32). if e = 2 ^ 31 - 1 then 2 ^ 32 else nat (2 ^ 31 - 1 - sint e)))"
    by simp
next
  fix mantissa :: i64 and exp :: i32
  assume "maxMantissa <s mantissa" and c: "\<not> maxExponent <s exp + 1"
  show "((word_of_int (sint mantissa sdiv 10), exp + 1), (mantissa, exp))
         \<in> measure (\<lambda>(m, e). if e = 2 ^ 31 - 1 then 2 ^ 32 else nat (2 ^ 31 - 1 - sint e))"
  proof (cases "exp = 2 ^ 31 - 1")
    case True
    then show ?thesis using sint_lt [of "exp + 1"] sint_ge [of "exp + 1"] by simp
  next
    case False
    have "sint exp \<noteq> 2 ^ 31 - 1"
    proof
      assume "sint exp = 2 ^ 31 - 1"
      then have "exp = 2 ^ 31 - 1" by (intro signed_word_eqI) simp
      with False show False by simp
    qed
    then have s: "sint (exp + 1) = sint exp + 1"
      using sint_ge [of exp] sint_lt [of exp]
      by (simp add: sint_word_ariths signed_take_bit_int_eq_self)
    from c have le: "sint (exp + 1) \<le> 80"
      by (simp add: word_sless_alt maxExponent_def)
    have "exp + 1 \<noteq> 2 ^ 31 - 1"
    proof
      assume h: "exp + 1 = 2 ^ 31 - 1"
      have "sint (exp + 1) = sint (2 ^ 31 - 1 :: i32)" by (simp only: h)
      then have "sint (exp + 1) = 2 ^ 31 - 1" by simp
      with le show False by simp
    qed
    moreover have "sint exp + 1 \<le> 80" using s le by simp
    ultimately show ?thesis using False s by simp
  qed
qed


text \<open>The host call \<open>float_set\<close>: the same loops, without the sign handling.\<close>

definition float_set :: "(hook_return_code \<Rightarrow> i64) \<Rightarrow> i32 \<Rightarrow> i64 \<Rightarrow> i64" where
  "float_set rc exp mantissa =
     (if mantissa = 0 then 0
      else case normalize_up mantissa exp of
             None \<Rightarrow> rc INVALID_FLOAT
           | Some (mantissa, exp) \<Rightarrow>
               (case normalize_down mantissa exp of
                  None \<Rightarrow> rc INVALID_FLOAT
                | Some (mantissa, exp) \<Rightarrow> make_float rc mantissa exp))"

text \<open>
  \<open>RETURN_IF_INVALID_FLOAT\<close>: true when the macro makes the host call return
  \<open>INVALID_FLOAT\<close>. The mantissa is compared as an \<open>int64_t\<close>.
\<close>

definition is_invalid_float :: "(hook_return_code \<Rightarrow> i64) \<Rightarrow> i64 \<Rightarrow> bool" where
  "is_invalid_float rc float1 =
     (if float1 <s 0 then True
      else if float1 = 0 then False
      else
        let mantissa = get_mantissa rc float1; exponent = get_exponent rc float1
        in mantissa <s minMantissa \<or> maxMantissa <s mantissa \<or>
           maxExponent <s exponent \<or> exponent <s minExponent)"

definition float_one_internal :: "(hook_return_code \<Rightarrow> i64) \<Rightarrow> i64" where
  "float_one_internal rc = make_float rc 1000000000000000 (- 15)"

definition float_one :: "(hook_return_code \<Rightarrow> i64) \<Rightarrow> i64" where
  "float_one rc = float_one_internal rc"

definition float_negate :: "(hook_return_code \<Rightarrow> i64) \<Rightarrow> i64 \<Rightarrow> i64" where
  "float_negate rc float1 =
     (if float1 = 0 then 0
      else if is_invalid_float rc float1 then rc INVALID_FLOAT
      else invert_sign float1)"

definition float_sign_set :: "(hook_return_code \<Rightarrow> i64) \<Rightarrow> i64 \<Rightarrow> u32 \<Rightarrow> i64" where
  "float_sign_set rc float1 negative =
     (if is_invalid_float rc float1 then rc INVALID_FLOAT
      else if float1 = 0 then 0
      else set_sign float1 (negative \<noteq> 0))"

definition float_exponent_set :: "(hook_return_code \<Rightarrow> i64) \<Rightarrow> i64 \<Rightarrow> i32 \<Rightarrow> i64" where
  "float_exponent_set rc float1 exponent =
     (if is_invalid_float rc float1 then rc INVALID_FLOAT
      else if float1 = 0 then 0
      else set_exponent rc float1 exponent)"

definition float_mantissa_set :: "(hook_return_code \<Rightarrow> i64) \<Rightarrow> i64 \<Rightarrow> i64 \<Rightarrow> i64" where
  "float_mantissa_set rc float1 mantissa =
     (if is_invalid_float rc float1 then rc INVALID_FLOAT
      else if mantissa = 0 then 0
      else set_mantissa rc float1 mantissa)"

section \<open>float_sto and float_sto_set\<close>

text \<open>The two loops that bring an XRP amount to exponent \<open>-6\<close>; \<open>man\<close> is a \<open>uint64_t\<close>.\<close>

function xrp_scale_down :: "u64 \<Rightarrow> i32 \<Rightarrow> u64 \<times> i32" where
  "xrp_scale_down man exp =
     (if exp <s - 6 then xrp_scale_down (man div 10) (exp + 1) else (man, exp))"
  by pat_completeness auto
termination
proof (relation "measure (\<lambda>(m, e). nat (- 6 - sint e))")
  show "wf (measure (\<lambda>(m::u64, e::i32). nat (- 6 - sint e)))" by simp
next
  fix man :: u64 and exp :: i32
  assume c: "exp <s - 6"
  then have lt: "sint exp < - 6" by (simp add: word_sless_alt)
  then have "sint (exp + 1) = sint exp + 1"
    using sint_ge [of exp]
    by (simp add: sint_word_ariths signed_take_bit_int_eq_self)
  with lt show "((man div 10, exp + 1), (man, exp)) \<in> measure (\<lambda>(m, e). nat (- 6 - sint e))"
    by simp
qed

function xrp_scale_up :: "u64 \<Rightarrow> i32 \<Rightarrow> u64 \<times> i32" where
  "xrp_scale_up man exp =
     (if - 6 <s exp then xrp_scale_up (man * 10) (exp - 1) else (man, exp))"
  by pat_completeness auto
termination
proof (relation "measure (\<lambda>(m, e). nat (sint e + 6))")
  show "wf (measure (\<lambda>(m::u64, e::i32). nat (sint e + 6)))" by simp
next
  fix man :: u64 and exp :: i32
  assume c: "- 6 <s exp"
  then have lt: "- 6 < sint exp" by (simp add: word_sless_alt)
  then have "sint (exp - 1) = sint exp - 1"
    using sint_lt [of exp]
    by (simp add: sint_word_ariths signed_take_bit_int_eq_self)
  with lt show "((man * 10, exp - 1), (man, exp)) \<in> measure (\<lambda>(m, e). nat (sint e + 6))"
    by simp
qed











declare normalize_up.simps [simp del] normalize_down.simps [simp del]
  xrp_scale_down.simps [simp del] xrp_scale_up.simps [simp del]

section \<open>Hook state\<close>

text \<open>
  What the state calls see of the ledger: \<open>view.peek(hookKeylet)\<close>, the hook object of the
  account, of which only \<open>sfHookStateDataMaxSize\<close> is read, and
  \<open>view.peek(keylet::hook_state(account, key))\<close>, the data of a hook-state entry.
\<close>

record LedgerView =
  hook_object :: "u32 option"
  hook_state :: "bytes \<times> bytes \<rightharpoonup> bytes"

text \<open>
  The state cache: keys compare as \<open>uint256\<close> values do, byte by byte from the first;
  \<open>cache_find\<close> is \<open>find\<close>, and \<open>cache_put\<close> is both \<open>operator[]\<close> followed by an assignment
  and, for a key that is not in the map, \<open>emplace\<close>.
\<close>

fun key_less :: "bytes \<Rightarrow> bytes \<Rightarrow> bool" where
  "key_less [] [] = False"
| "key_less [] (y # ys) = True"
| "key_less (x # xs) [] = False"
| "key_less (x # xs) (y # ys) = (x < y \<or> (x = y \<and> key_less xs ys))"

fun cache_put ::
  "bytes \<Rightarrow> bool \<times> bytes \<Rightarrow> (bytes \<times> bool \<times> bytes) list \<Rightarrow> (bytes \<times> bool \<times> bytes) list" where
  "cache_put k v [] = [(k, v)]"
| "cache_put k v ((k', v') # m) =
     (if k = k' then (k, v) # m
      else if key_less k k' then (k, v) # (k', v') # m
      else (k', v') # cache_put k v m)"

definition cache_find :: "(bytes \<times> bool \<times> bytes) list \<Rightarrow> bytes \<Rightarrow> (bool \<times> bytes) option" where
  "cache_find m k = map_of m k"

text \<open>\<open>make_state_key\<close>: the key zero-padded on the left to 32 bytes.\<close>

definition make_state_key :: "bytes \<Rightarrow> bytes option" where
  "make_state_key source =
     (if length source > 32 \<or> length source < 1 then None
      else Some (replicate (32 - length source) 0 @ source))"

text \<open>
  \<open>data_as_int64\<close>: up to eight bytes read as a big-endian number, refused when bit 63 is set.
\<close>

definition data_as_int64 :: "bytes \<Rightarrow> hook_return_code + int" where
  "data_as_int64 p =
     (if length p > 8 then Inl TOO_BIG
      else
        let output = (\<Sum>i \<leftarrow> [0..<length p].
                        push_bit ((length p - 1 - i) * 8) (ucast (p ! i) :: u64))
        in if bit output 63 then Inl TOO_BIG else Inr (uint output))"

text \<open>
  \<open>state_set\<close>. After the two length tests \<open>kread_len\<close> lies between 1 and 32, so
  \<open>make_state_key\<close> has a value.
\<close>

definition state_set ::
  "LedgerView \<Rightarrow> HookContext \<Rightarrow> memory \<Rightarrow> u32 \<Rightarrow> u32 \<Rightarrow> u32 \<Rightarrow> u32 \<Rightarrow>
     (hook_return_code + int) \<times> HookContext" where
  "state_set view hookCtx mem read_ptr read_len kread_ptr kread_len =
     (if NOT_IN_BOUNDS kread_ptr 32 (length mem) then (Inl OUT_OF_BOUNDS, hookCtx)
      else if \<not> (read_ptr = 0 \<and> read_len = 0) \<and>
              NOT_IN_BOUNDS read_ptr (unat read_len) (length mem)
      then (Inl OUT_OF_BOUNDS, hookCtx)
      else if kread_len > 32 then (Inl TOO_BIG, hookCtx)
      else if kread_len < 1 then (Inl TOO_SMALL, hookCtx)
      else case hook_object view of
        None \<Rightarrow> (Inl INTERNAL_ERROR, hookCtx)
      | Some maxSize \<Rightarrow>
          if read_len > maxSize then (Inl TOO_BIG, hookCtx)
          else
            let key = the (make_state_key (read_mem mem (unat kread_ptr) (unat kread_len)));
                blob = read_mem mem (unat read_ptr) (unat read_len)
            in (Inr (uint read_len),
                hookCtx\<lparr>result := (result hookCtx)
                  \<lparr>changedState := cache_put key (True, blob) (changedState (result hookCtx))\<rparr>\<rparr>))"

text \<open>
  The tail that \<open>state_foreign\<close> has twice, once for a cached blob and once for a blob read
  from the ledger: the data as a number when \<open>write_ptr\<close> is 0, else the data copied out.
\<close>

definition state_return ::
  "memory \<Rightarrow> HookContext \<Rightarrow> u32 \<Rightarrow> u32 \<Rightarrow> bytes \<Rightarrow>
     (hook_return_code + int) \<times> memory \<times> HookContext" where
  "state_return mem hookCtx write_ptr write_len b =
     (if write_ptr = 0 then (data_as_int64 b, mem, hookCtx)
      else if length b > unat write_len then (Inl TOO_SMALL, mem, hookCtx)
      else case WRITE_WASM_MEMORY_AND_RETURN mem (unat write_ptr) (unat write_len) b of
             (r, mem') \<Rightarrow> (r, mem', hookCtx))"

text \<open>
  \<open>state_foreign\<close>. \<open>aread_ptr\<close> is unsigned, so the \<open>INVALID_ARGUMENT\<close> branch of the first
  test cannot be taken. Only local state is cached.
\<close>

definition state_foreign ::
  "LedgerView \<Rightarrow> HookContext \<Rightarrow> memory \<Rightarrow> u32 \<Rightarrow> u32 \<Rightarrow> u32 \<Rightarrow> u32 \<Rightarrow> u32 \<Rightarrow> u32 \<Rightarrow>
     (hook_return_code + int) \<times> memory \<times> HookContext" where
  "state_foreign view hookCtx mem write_ptr write_len kread_ptr kread_len aread_ptr aread_len =
     (let is_foreign = (aread_ptr \<noteq> 0) in
      if NOT_IN_BOUNDS kread_ptr (unat kread_len) (length mem) \<or>
         NOT_IN_BOUNDS aread_ptr (unat aread_len) (length mem) \<or>
         NOT_IN_BOUNDS write_ptr (unat write_len) (length mem)
      then (Inl OUT_OF_BOUNDS, mem, hookCtx)
      else if kread_len > 32 then (Inl TOO_BIG, mem, hookCtx)
      else if is_foreign \<and> aread_len \<noteq> 20 then (Inl INVALID_ACCOUNT, mem, hookCtx)
      else case make_state_key (read_mem mem (unat kread_ptr) (unat kread_len)) of
        None \<Rightarrow> (Inl INVALID_ARGUMENT, mem, hookCtx)
      | Some key \<Rightarrow>
          (case (if is_foreign then None else cache_find (changedState (result hookCtx)) key) of
             Some cacheEntry \<Rightarrow> state_return mem hookCtx write_ptr write_len (snd cacheEntry)
           | None \<Rightarrow>
               (case hook_object view of
                  None \<Rightarrow> (Inl INTERNAL_ERROR, mem, hookCtx)
                | Some sle \<Rightarrow>
                    (case hook_state view
                            (if is_foreign then read_mem mem (unat aread_ptr) 20
                             else account (result hookCtx), key) of
                       None \<Rightarrow> (Inl DOESNT_EXIST, mem, hookCtx)
                     | Some b \<Rightarrow>
                         let ctx1 = (if is_foreign then hookCtx
                                     else hookCtx\<lparr>result := (result hookCtx)
                                       \<lparr>changedState :=
                                          cache_put key (False, b) (changedState (result hookCtx))\<rparr>\<rparr>)
                         in state_return mem ctx1 write_ptr write_len b))))"

definition state ::
  "LedgerView \<Rightarrow> HookContext \<Rightarrow> memory \<Rightarrow> u32 \<Rightarrow> u32 \<Rightarrow> u32 \<Rightarrow> u32 \<Rightarrow>
     (hook_return_code + int) \<times> memory \<times> HookContext" where
  "state view hookCtx mem write_ptr write_len kread_ptr kread_len =
     state_foreign view hookCtx mem write_ptr write_len kread_ptr kread_len 0 0"

section \<open>Emitted transactions\<close>

text \<open>
  A parsed transaction, as far as \<open>emit\<close> and the \<open>otxn_\<close> calls look at it: the fields they
  test (\<open>None\<close> when \<open>isFieldPresent\<close> is false), the fee in drops, and whether the
  \<open>Transaction\<close> built from it has status \<open>NEW\<close>.
\<close>

record EmitDetails =
  sfEmitGeneration :: "u32 option"
  sfEmitBurden :: "u64 option"
  sfEmitParentTxnID :: "bytes option"
  sfEmitNonce :: "bytes option"
  sfEmitCallback :: "bytes option"

record STTx =
  sfSequence :: "u32 option"
  sfSigningPubKey :: "bytes option"
  sfEmitDetails :: "EmitDetails option"
  sfSignature :: "bytes option"
  sfLastLedgerSequence :: "u32 option"
  sfFirstLedgerSequence :: "u32 option"
  sfFee :: "i64 option"
  status_NEW :: bool

text \<open>
  What the emission calls take from outside the hook context: the originating transaction and
  its id, the index of the last validated ledger, the value \<open>fee_base()\<close> returns (the ledger's
  base fee times \<open>fee_base_multiplier\<close>, computed in floating point and cast to \<open>int64_t\<close>), the
  transaction parser (\<open>None\<close> when the \<open>STTx\<close> constructor throws), and the constants
  \<open>max_emit\<close> and \<open>drops_per_byte\<close> of the missing header.
\<close>

record ApplyEnv =
  otxn :: STTx
  otxn_id :: bytes
  valid_ledger_index :: u32
  ledger_fee_base :: i64
  parse_tx :: "bytes \<Rightarrow> STTx option"
  max_emit :: u32
  drops_per_byte :: i64

text \<open>
  \<open>expected_etxn_count\<close> holds \<open>-1\<close> or the \<open>uint32_t\<close> count of \<open>etxn_reserve\<close>; it is a 64-bit
  integer in the header, so no conversion loses anything.
\<close>

definition etxn_reserve ::
  "ApplyEnv \<Rightarrow> HookContext \<Rightarrow> u32 \<Rightarrow> (hook_return_code + int) \<times> HookContext" where
  "etxn_reserve env hookCtx count =
     (if expected_etxn_count hookCtx > - 1 then (Inl ALREADY_SET, hookCtx)
      else if count > max_emit env then (Inl TOO_BIG, hookCtx)
      else (Inr (uint count), hookCtx\<lparr>expected_etxn_count := uint count\<rparr>))"

text \<open>
  The calls below return an \<open>int64_t\<close> that their callers use as a number, error codes
  included, so they return a word and take the numbering \<open>rc\<close> of the error codes.
\<close>

definition otxn_burden :: "ApplyEnv \<Rightarrow> HookContext \<Rightarrow> i64 \<times> HookContext" where
  "otxn_burden env hookCtx =
     (if burden hookCtx \<noteq> 0 then (burden hookCtx, hookCtx)
      else case sfEmitDetails (otxn env) of
        None \<Rightarrow> (1, hookCtx)
      | Some pd \<Rightarrow>
          (case sfEmitBurden pd of
             None \<Rightarrow> (1, hookCtx)
           | Some b \<Rightarrow>
               let burden' = b AND (push_bit 63 1 - 1)
               in (burden', hookCtx\<lparr>burden := burden'\<rparr>)))"

definition otxn_generation :: "ApplyEnv \<Rightarrow> HookContext \<Rightarrow> i64 \<times> HookContext" where
  "otxn_generation env hookCtx =
     (if generation hookCtx \<noteq> 0 then (ucast (generation hookCtx), hookCtx)
      else case sfEmitDetails (otxn env) of
        None \<Rightarrow> (1, hookCtx)
      | Some pd \<Rightarrow>
          (case sfEmitGeneration pd of
             None \<Rightarrow> (1, hookCtx)
           | Some g \<Rightarrow>
               let g' = (if g + 1 > g then g + 1 else g)
               in (ucast g', hookCtx\<lparr>generation := g'\<rparr>)))"

definition etxn_generation :: "ApplyEnv \<Rightarrow> HookContext \<Rightarrow> i64 \<times> HookContext" where
  "etxn_generation env hookCtx =
     (case otxn_generation env hookCtx of (g, ctx) \<Rightarrow> (g + 1, ctx))"

definition etxn_burden ::
  "(hook_return_code \<Rightarrow> i64) \<Rightarrow> ApplyEnv \<Rightarrow> HookContext \<Rightarrow> i64 \<times> HookContext" where
  "etxn_burden rc env hookCtx =
     (if expected_etxn_count hookCtx \<le> - 1 then (rc PREREQUISITE_NOT_MET, hookCtx)
      else case otxn_burden env hookCtx of
        (last_burden, ctx) \<Rightarrow>
          let burden' = last_burden * word_of_int (expected_etxn_count ctx)
          in if burden' < last_burden then (rc FEE_TOO_LARGE, ctx) else (burden', ctx))"

definition etxn_fee_base ::
  "(hook_return_code \<Rightarrow> i64) \<Rightarrow> ApplyEnv \<Rightarrow> HookContext \<Rightarrow> u32 \<Rightarrow> i64 \<times> HookContext" where
  "etxn_fee_base rc env hookCtx tx_byte_count =
     (if expected_etxn_count hookCtx \<le> - 1 then (rc PREREQUISITE_NOT_MET, hookCtx)
      else
        let base_fee = ledger_fee_base env in
        case etxn_burden rc env hookCtx of
          (burden', ctx) \<Rightarrow>
            if burden' <s 1 then (rc FEE_TOO_LARGE, ctx)
            else
              let fee = base_fee * burden'
              in if fee < burden' \<or> fee AND push_bit 62 3 \<noteq> 0 then (rc FEE_TOO_LARGE, ctx)
                 else (fee * drops_per_byte env * ucast tx_byte_count, ctx\<lparr>fee_base := fee\<rparr>))"

text \<open>
  \<open>emit\<close>. The context is returned on every path, because the generation, burden and fee
  caches are written before the later rules are tested. An accepted transaction is kept in
  the queue as the blob it was parsed from.
\<close>

definition emit ::
  "(hook_return_code \<Rightarrow> i64) \<Rightarrow> ApplyEnv \<Rightarrow> HookContext \<Rightarrow> memory \<Rightarrow> u32 \<Rightarrow> u32 \<Rightarrow>
     (hook_return_code + int) \<times> HookContext" where
  "emit rc env hookCtx mem read_ptr read_len =
     (if NOT_IN_BOUNDS read_ptr (unat read_len) (length mem) then (Inl OUT_OF_BOUNDS, hookCtx)
      else if expected_etxn_count hookCtx < 0 then (Inl PREREQUISITE_NOT_MET, hookCtx)
      else if int (length (emittedTxn (result hookCtx))) \<ge> expected_etxn_count hookCtx
      then (Inl TOO_MANY_EMITTED_TXN, hookCtx)
      else
        let blob = read_mem mem (unat read_ptr) (unat read_len) in
        case parse_tx env blob of
          None \<Rightarrow> (Inl EMISSION_FAILURE, hookCtx)
        | Some stpTrans \<Rightarrow>
        if sfSequence stpTrans \<noteq> Some 0 then (Inl EMISSION_FAILURE, hookCtx)
        else case sfSigningPubKey stpTrans of
          None \<Rightarrow> (Inl EMISSION_FAILURE, hookCtx)
        | Some pk \<Rightarrow>
        if length pk \<noteq> 33 \<and> length pk \<noteq> 0 then (Inl EMISSION_FAILURE, hookCtx)
        else if list_ex (\<lambda>b. b \<noteq> 0) pk then (Inl EMISSION_FAILURE, hookCtx)
        else case sfEmitDetails stpTrans of
          None \<Rightarrow> (Inl EMISSION_FAILURE, hookCtx)
        | Some emitDetails \<Rightarrow>
        if sfEmitGeneration emitDetails = None \<or> sfEmitBurden emitDetails = None \<or>
           sfEmitParentTxnID emitDetails = None \<or> sfEmitNonce emitDetails = None \<or>
           sfEmitCallback emitDetails = None
        then (Inl EMISSION_FAILURE, hookCtx)
        else
          let gen = the (sfEmitGeneration emitDetails);
              bur = the (sfEmitBurden emitDetails);
              pTxnID = the (sfEmitParentTxnID emitDetails);
              nonce = the (sfEmitNonce emitDetails);
              callback = the (sfEmitCallback emitDetails)
          in
          case etxn_generation env hookCtx of
            (g, ctx1) \<Rightarrow>
          let gen_proper = (ucast g :: u32) in
          if gen \<noteq> gen_proper then (Inl EMISSION_FAILURE, ctx1)
          else case etxn_burden rc env ctx1 of
            (bur_proper, ctx2) \<Rightarrow>
          if bur \<noteq> bur_proper then (Inl EMISSION_FAILURE, ctx2)
          else if pTxnID \<noteq> otxn_id env then (Inl EMISSION_FAILURE, ctx2)
          else if nonce \<notin> nonce_used ctx2 then (Inl EMISSION_FAILURE, ctx2)
          else if callback \<noteq> account (result ctx2) then (Inl EMISSION_FAILURE, ctx2)
          else if sfSignature stpTrans \<noteq> None then (Inl EMISSION_FAILURE, ctx2)
          else
            let tx_lls = (case sfLastLedgerSequence stpTrans of None \<Rightarrow> 0 | Some v \<Rightarrow> v);
                ledgerSeq = valid_ledger_index env + 1
            in
            if sfLastLedgerSequence stpTrans = None \<or> tx_lls < ledgerSeq + 1
            then (Inl EMISSION_FAILURE, ctx2)
            else if sfFirstLedgerSequence stpTrans = None \<or>
                    the (sfFirstLedgerSequence stpTrans) > tx_lls
            then (Inl EMISSION_FAILURE, ctx2)
            else
              let ctx3 = (if fee_base ctx2 = 0
                          then (case etxn_fee_base rc env ctx2 read_len of
                                  (f, c) \<Rightarrow> c\<lparr>fee_base := f\<rparr>)
                          else ctx2);
                  minfee = fee_base ctx3 * drops_per_byte env * ucast read_len
              in
              if minfee <s 0 \<or> fee_base ctx3 <s 0 then (Inl EMISSION_FAILURE, ctx3)
              else case sfFee stpTrans of
                None \<Rightarrow> (Inl EMISSION_FAILURE, ctx3)
              | Some fee \<Rightarrow>
              if fee <s minfee then (Inl EMISSION_FAILURE, ctx3)
              else if \<not> status_NEW stpTrans then (Inl EMISSION_FAILURE, ctx3)
              else (Inr (uint read_len),
                    ctx3\<lparr>result := (result ctx3)
                      \<lparr>emittedTxn := emittedTxn (result ctx3) @ [blob]\<rparr>\<rparr>))"

text \<open>A run of \<open>emit\<close> calls; the guest may change its memory between them.\<close>

fun emit_calls ::
  "(hook_return_code \<Rightarrow> i64) \<Rightarrow> ApplyEnv \<Rightarrow> HookContext \<Rightarrow> (memory \<times> u32 \<times> u32) list \<Rightarrow>
     (hook_return_code + int) list \<times> HookContext" where
  "emit_calls rc env hookCtx [] = ([], hookCtx)"
| "emit_calls rc env hookCtx ((mem, read_ptr, read_len) # calls) =
     (case emit rc env hookCtx mem read_ptr read_len of
        (r, ctx) \<Rightarrow> (case emit_calls rc env ctx calls of (rs, ctx') \<Rightarrow> (r # rs, ctx')))"

section \<open>The commit step\<close>

text \<open>
  The \<open>sfHookExecution\<close> object that \<open>commitChangesToLedger\<close> builds. \<open>sfHookResult\<close> is the
  exit type, stored as a \<open>uint8_t\<close>; the numbering of the exit types is in the missing header,
  so the field keeps the exit type itself.
\<close>

record HookExecution =
  sfHookResult :: ExitType
  sfHookHash :: bytes
  sfHookAccount :: bytes
  sfHookReturnCode :: u64
  sfHookReturnString :: bytes
  sfHookInstructionCount :: u64
  sfHookEmitCount :: u16
  sfHookExecutionIndex :: u16
  sfHookStateChangeCount :: u16

text \<open>
  The view of \<open>ApplyContext\<close>. \<open>ApplyViewImpl\<close> is not part of the repository's sources here;
  of it the model keeps whether the view is open and the list of hook-execution records that
  \<open>addHookMetaData\<close> appends to. Everything else is the ledger \<open>'l\<close>, reached only through
  the operations below.
\<close>

record 'l ApplyView =
  ledger :: 'l
  is_open :: bool
  hookExecution :: "HookExecution list"

text \<open>
  The ledger operations that \<open>commitChangesToLedger\<close> calls:
  \<^item> \<open>setHookState\<close> with the hook result, key and data (its \<open>TER\<close> result is ignored by the
    caller);
  \<^item> \<open>nextHookExecutionIndex\<close>;
  \<^item> \<open>getID\<close> of a queued transaction;
  \<^item> \<open>peek(keylet::emitted(id))\<close>, giving \<open>sfOwnerNode\<close> of the entry if there is one;
  \<^item> \<open>dirAppend\<close> to the emitted directory, giving the page unless the directory is full;
  \<^item> \<open>insert\<close> of a new emitted entry with its transaction and page;
  \<^item> \<open>dirRemove\<close> from the emitted directory, and \<open>erase\<close> of an emitted entry.
\<close>

record 'l LedgerOps =
  setHookState :: "HookResult \<Rightarrow> bytes \<Rightarrow> bytes \<Rightarrow> 'l \<Rightarrow> 'l"
  nextHookExecutionIndex :: "'l ApplyView \<Rightarrow> u16 \<times> 'l"
  getID :: "bytes \<Rightarrow> bytes"
  peek_emitted :: "'l \<Rightarrow> bytes \<Rightarrow> u64 option"
  dirAppend :: "'l \<Rightarrow> bytes \<Rightarrow> u64 option \<times> 'l"
  insert_emitted :: "'l \<Rightarrow> bytes \<Rightarrow> bytes \<Rightarrow> u64 \<Rightarrow> 'l"
  dirRemove :: "'l \<Rightarrow> u64 \<Rightarrow> bytes \<Rightarrow> bool \<times> 'l"
  erase_emitted :: "'l \<Rightarrow> bytes \<Rightarrow> 'l"

text \<open>The two mode bits, as the table in the source lays them out.\<close>

definition cclAPPLY :: u8 where "cclAPPLY = 1"
definition cclREMOVE :: u8 where "cclREMOVE = 2"

text \<open>
  The loop over the state cache: a modified entry is counted in the \<open>uint16_t\<close>
  \<open>change_count\<close> and handed to \<open>setHookState\<close>.
\<close>

fun apply_state_changes ::
  "'l LedgerOps \<Rightarrow> HookResult \<Rightarrow> (bytes \<times> bool \<times> bytes) list \<Rightarrow> u16 \<Rightarrow> 'l \<Rightarrow> u16 \<times> 'l" where
  "apply_state_changes ops hookResult [] change_count l = (change_count, l)"
| "apply_state_changes ops hookResult ((key, is_modified, blob) # cache) change_count l =
     (if is_modified
      then apply_state_changes ops hookResult cache (change_count + 1)
             (setHookState ops hookResult key blob l)
      else apply_state_changes ops hookResult cache change_count l)"

text \<open>
  The loop over the queue of emitted transactions: the result is the ledger, what is left of
  the queue, and the \<open>uint16_t\<close> \<open>emission_count\<close>. A transaction whose entry exists already is
  only popped. When the directory is full the loop is left before the pop.
\<close>

fun apply_emitted ::
  "'l LedgerOps \<Rightarrow> bytes list \<Rightarrow> u16 \<Rightarrow> 'l \<Rightarrow> 'l \<times> bytes list \<times> u16" where
  "apply_emitted ops [] emission_count l = (l, [], emission_count)"
| "apply_emitted ops (tpTrans # queue) emission_count l =
     (let id = getID ops tpTrans in
      case peek_emitted ops l id of
        Some sleEmitted \<Rightarrow> apply_emitted ops queue emission_count l
      | None \<Rightarrow>
          (case dirAppend ops l id of
             (Some page, l') \<Rightarrow>
               apply_emitted ops queue (emission_count + 1)
                 (insert_emitted ops l' id tpTrans page)
           | (None, l') \<Rightarrow> (l', tpTrans # queue, emission_count + 1)))"

text \<open>The block that takes the activating transaction out of the emitted directory.\<close>

definition remove_activating :: "'l LedgerOps \<Rightarrow> ApplyEnv \<Rightarrow> 'l \<Rightarrow> 'l" where
  "remove_activating ops env l =
     (if sfEmitDetails (otxn env) = None then l
      else case peek_emitted ops l (otxn_id env) of
        None \<Rightarrow> l
      | Some owner_node \<Rightarrow>
          (case dirRemove ops l owner_node (otxn_id env) of
             (False, l') \<Rightarrow> l'
           | (True, l') \<Rightarrow> erase_emitted ops l' (otxn_id env)))"

text \<open>
  \<open>commitChangesToLedger\<close>. It changes the view and, by popping the queue, the hook result.
  The exit code is re-encoded with 64-bit arithmetic as written.
\<close>

definition commitChangesToLedger ::
  "'l LedgerOps \<Rightarrow> ApplyEnv \<Rightarrow> HookResult \<Rightarrow> 'l ApplyView \<Rightarrow> u8 \<Rightarrow> HookResult \<times> 'l ApplyView" where
  "commitChangesToLedger ops env hookResult view cclMode =
     (if cclMode = 0 then (hookResult, view)
      else
        case (if cclMode AND cclAPPLY \<noteq> 0
              then apply_state_changes ops hookResult (changedState hookResult) 0 (ledger view)
              else (0, ledger view)) of
          (change_count, l1) \<Rightarrow>
        if is_open view then (hookResult, view\<lparr>ledger := l1\<rparr>)
        else
          case nextHookExecutionIndex ops (view\<lparr>ledger := l1\<rparr>) of
            (exec_index, l2) \<Rightarrow>
          case (if cclMode AND cclAPPLY \<noteq> 0
                then apply_emitted ops (emittedTxn hookResult) 0 l2
                else (l2, emittedTxn hookResult, 0)) of
            (l3, queue, emission_count) \<Rightarrow>
          let l4 = (if cclMode AND cclREMOVE \<noteq> 0 then remove_activating ops env l3 else l3);
              unsigned_exit_code =
                (if 0 \<le>s exitCode hookResult then exitCode hookResult
                 else 0x8000000000000000 + (- 1 * exitCode hookResult));
              meta = \<lparr>sfHookResult = exitType hookResult,
                      sfHookHash = hookSetTxnID hookResult,
                      sfHookAccount = account hookResult,
                      sfHookReturnCode = unsigned_exit_code,
                      sfHookReturnString = exitReason hookResult,
                      sfHookInstructionCount = instructionCount hookResult,
                      sfHookEmitCount = emission_count,
                      sfHookExecutionIndex = exec_index,
                      sfHookStateChangeCount = change_count\<rparr>
          in (hookResult\<lparr>emittedTxn := queue\<rparr>,
              view\<lparr>ledger := l4, hookExecution := hookExecution view @ [meta]\<rparr>))"

section \<open>Concrete inputs used by the witnesses\<close>

definition example_ctx :: HookContext where
  "example_ctx =
     \<lparr>expected_etxn_count = - 1, nonce_counter = 0, nonce_used = {}, generation = 0,
      burden = 0, fee_base = 0, guard_map = Map.empty,
      result = \<lparr>hookSetTxnID = replicate 32 1, hookHash = replicate 32 2,
                account = map of_nat [1..<21], otxnAccount = replicate 20 3,
                changedState = [], emittedTxn = [], exitType = ROLLBACK,
                exitReason = [], exitCode = - 1, instructionCount = 0\<rparr>\<rparr>"


text \<open>
  The numeric values of the return codes are declared in the missing header; the examples use
  this numbering, and a context whose exit record differs from what a guard violation writes.
\<close>

definition example_rc :: "hook_return_code \<Rightarrow> i64" where
  "example_rc c = (if c = GUARD_VIOLATION then - 16 else if c = INVALID_FLOAT then - 10024 else - 1)"

definition running_ctx :: HookContext where
  "running_ctx = example_ctx\<lparr>result := (result example_ctx)\<lparr>exitType := ACCEPT, exitCode := 0\<rparr>\<rparr>"

text \<open>A ledger with the hook installed (state entries of up to 128 bytes) and no state yet.\<close>

definition example_view :: LedgerView where
  "example_view = \<lparr>hook_object = Some 128, hook_state = Map.empty\<rparr>"

text \<open>
  An originating transaction that was not itself emitted, a child transaction that meets the
  rules of \<open>emit\<close> for one reserved emission, and a parser that reads that child from every
  blob of 200 bytes, the same child with a fee of one drop from every blob of 201 bytes, and
  fails on every other blob.
\<close>

definition example_otxn :: STTx where
  "example_otxn =
     \<lparr>sfSequence = Some 7, sfSigningPubKey = Some (replicate 33 2), sfEmitDetails = None,
      sfSignature = Some (replicate 70 9), sfLastLedgerSequence = None,
      sfFirstLedgerSequence = None, sfFee = Some 12, status_NEW = True\<rparr>"

definition example_child :: STTx where
  "example_child =
     \<lparr>sfSequence = Some 0, sfSigningPubKey = Some (replicate 33 0),
      sfEmitDetails = Some
        \<lparr>sfEmitGeneration = Some 2, sfEmitBurden = Some 1,
         sfEmitParentTxnID = Some (replicate 32 5), sfEmitNonce = Some (replicate 32 7),
         sfEmitCallback = Some (map of_nat [1..<21])\<rparr>,
      sfSignature = None, sfLastLedgerSequence = Some 110,
      sfFirstLedgerSequence = Some 101, sfFee = Some 429687500000000, status_NEW = True\<rparr>"

definition example_env :: ApplyEnv where
  "example_env =
     \<lparr>otxn = example_otxn, otxn_id = replicate 32 5, valid_ledger_index = 99,
      ledger_fee_base = 11,
      parse_tx = (\<lambda>blob. if length blob = 200 then Some example_child
                        else if length blob = 201 then Some (example_child\<lparr>sfFee := Some 1\<rparr>)
                        else None),
      max_emit = 255, drops_per_byte = 31250\<rparr>"

text \<open>The example context once \<open>nonce\<close> has handed out one nonce.\<close>

definition nonce_ctx :: HookContext where
  "nonce_ctx = example_ctx\<lparr>nonce_counter := 1, nonce_used := {replicate 32 7}\<rparr>"



section \<open>The bounds check in plain arithmetic\<close>

lemma NOT_IN_BOUNDS_iff:
  "len < 2 ^ 32 \<Longrightarrow> NOT_IN_BOUNDS ptr len ml \<longleftrightarrow> unat ptr + len > ml"
proof -
  assume "len < 2 ^ 32"
  moreover have "unat ptr < 2 ^ 32" using unsigned_less [of ptr] by simp
  ultimately have "unat ptr + len < 2 ^ 64" by simp
  then show ?thesis by (auto simp: NOT_IN_BOUNDS_def)
qed

lemma NOT_IN_BOUNDS_u32:
  "NOT_IN_BOUNDS ptr (unat (len :: u32)) ml \<longleftrightarrow> unat ptr + unat len > ml"
proof -
  have "unat len < 2 ^ 32" using unsigned_less [of len] by simp
  then show ?thesis by (rule NOT_IN_BOUNDS_iff)
qed

section \<open>hook_account\<close>

text \<open>
  Claim C10. \<open>hook_account\<close> never looks at its length argument: whenever the 20 bytes at
  \<open>write_ptr\<close> lie inside guest memory it writes the 20 bytes of the installed account id
  there, leaves every other byte alone and returns 20, whatever \<open>ptr_len\<close> is (also when it
  is smaller than 20).
\<close>

theorem hook_account_ignores_length:
  assumes "unat write_ptr + 20 \<le> length mem" and "length (account (result hookCtx)) = 20"
  shows "hook_account hookCtx mem write_ptr ptr_len =
           (Inr 20, take (unat write_ptr) mem @ account (result hookCtx)
                      @ drop (unat write_ptr + 20) mem)"
  using assms
  by (simp add: hook_account_def NOT_IN_BOUNDS_iff WRITE_WASM_MEMORY_AND_RETURN_def
      WRITE_WASM_MEMORY_def setBytes_def)

theorem hook_account_ignores_length_witness:
  "hook_account example_ctx (replicate 65536 0) 8 4 =
     (Inr 20, replicate 8 0 @ map of_nat [1..<21] @ replicate 65508 0)"
proof -
  have a: "unat (8::u32) + 20 \<le> length (replicate 65536 (0::u8))" by simp
  have b: "length (account (result example_ctx)) = 20" by (simp add: example_ctx_def)
  show ?thesis
    using hook_account_ignores_length [OF a b, of 4] by (simp add: example_ctx_def)
qed

section \<open>Guard metering\<close>

lemma g_calls_below:
  "guard_map hookCtx guard_id = None \<Longrightarrow> k \<le> unat maxitr \<Longrightarrow>
     g_calls rc hookCtx guard_id maxitr k =
       (replicate k (Inr 1),
        if k = 0 then hookCtx
        else hookCtx\<lparr>guard_map := (guard_map hookCtx)(guard_id \<mapsto> of_nat k)\<rparr>)"
proof (induction k)
  case 0
  then show ?case by simp
next
  case (Suc k)
  then have IH: "g_calls rc hookCtx guard_id maxitr k =
       (replicate k (Inr 1),
        if k = 0 then hookCtx
        else hookCtx\<lparr>guard_map := (guard_map hookCtx)(guard_id \<mapsto> of_nat k)\<rparr>)"
    by simp
  have "unat maxitr < 2 ^ 32" using unsigned_less [of maxitr] by simp
  with Suc.prems have "Suc k < 2 ^ 32" by simp
  then have "unat (of_nat (Suc k) :: u32) = Suc k"
    by (subst unat_of_nat) simp
  with Suc.prems have le: "\<not> maxitr < (of_nat k + 1 :: u32)" "\<not> maxitr < (1 :: u32)"
    by (simp_all add: word_less_nat_alt add.commute)
  from Suc.prems le show ?case
    by (cases "k = 0") (simp_all add: IH hook_g_def Let_def replicate_append_same add.commute)
qed

text \<open>
  Claim C4. Starting from a context that has not yet seen guard \<open>guard_id\<close>, and for every
  bound \<open>maxitr\<close> other than \<open>0xFFFFFFFF\<close>, the first \<open>maxitr\<close> calls of
  \<open>_g(guard_id, maxitr)\<close> all return 1 and leave the exit record untouched; the next call
  returns \<open>RC_ROLLBACK\<close> and sets the exit type to \<open>ROLLBACK\<close> and the exit code to
  \<open>GUARD_VIOLATION\<close>.
\<close>

theorem guard_n_then_rollback:
  assumes "guard_map hookCtx guard_id = None" and "maxitr \<noteq> 0xFFFFFFFF"
  shows "(case g_calls rc hookCtx guard_id maxitr (unat maxitr) of (rs, ctx) \<Rightarrow>
            rs = replicate (unat maxitr) (Inr 1) \<and>
            result ctx = result hookCtx \<and>
            (case hook_g rc ctx guard_id maxitr of (r, ctx') \<Rightarrow>
               r = Inl RC_ROLLBACK \<and>
               exitType (result ctx') = ROLLBACK \<and>
               exitCode (result ctx') = rc GUARD_VIOLATION))"
proof -
  have "unat maxitr \<noteq> 4294967295" using assms(2) by (simp add: word_unat_eq_iff)
  moreover have "unat maxitr < 2 ^ 32" using unsigned_less [of maxitr] by simp
  ultimately have "unat (maxitr + 1) = unat maxitr + 1" by (simp add: unat_word_ariths)
  then have gt: "maxitr < maxitr + 1" "maxitr = 0 \<Longrightarrow> maxitr < 1"
    by (simp_all add: word_less_nat_alt)
  show ?thesis
    using assms(1) gt
    by (cases "unat maxitr = 0") (simp_all add: g_calls_below hook_g_def Let_def unat_eq_0)
qed

theorem guard_n_then_rollback_witness:
  "guard_map running_ctx 42 = None \<and> (3::u32) \<noteq> 0xFFFFFFFF \<and>
   fst (g_calls example_rc running_ctx 42 3 (unat (3::u32))) = replicate 3 (Inr 1) \<and>
   fst (hook_g example_rc (snd (g_calls example_rc running_ctx 42 3 (unat (3::u32)))) 42 3)
     = Inl RC_ROLLBACK \<and>
   exitType (result running_ctx) = ACCEPT \<and> exitCode (result running_ctx) = 0 \<and>
   exitType (result (snd (hook_g example_rc
       (snd (g_calls example_rc running_ctx 42 3 (unat (3::u32)))) 42 3))) = ROLLBACK \<and>
   exitCode (result (snd (hook_g example_rc
       (snd (g_calls example_rc running_ctx 42 3 (unat (3::u32)))) 42 3))) = - 16"
proof -
  have h: "guard_map running_ctx 42 = None" by (simp add: running_ctx_def example_ctx_def)
  have m: "(3::u32) \<noteq> 0xFFFFFFFF" by simp
  show ?thesis
    using h guard_n_then_rollback [OF h m, where rc = example_rc]
    by (simp add: split_beta running_ctx_def example_ctx_def example_rc_def)
qed

text \<open>
  At \<open>maxitr = 0xFFFFFFFF\<close> the guard cannot fire: after \<open>2^32 - 1\<close> calls the counter is
  \<open>0xFFFFFFFF\<close>, the next increment wraps it to 0, and the call returns 1 with the exit record
  as it was.
\<close>

theorem guard_never_fires_at_max:
  "(case g_calls example_rc running_ctx 42 0xFFFFFFFF 4294967295 of (rs, ctx) \<Rightarrow>
      rs = replicate 4294967295 (Inr 1) \<and>
      guard_map ctx 42 = Some 0xFFFFFFFF \<and>
      (case hook_g example_rc ctx 42 0xFFFFFFFF of (r, ctx') \<Rightarrow>
         r = Inr 1 \<and> guard_map ctx' 42 = Some 0 \<and> result ctx' = result running_ctx \<and>
         exitType (result ctx') = ACCEPT))"
proof -
  have h: "guard_map running_ctx 42 = None" by (simp add: running_ctx_def example_ctx_def)
  have k: "(4294967295::nat) \<le> unat (0xFFFFFFFF :: u32)" by simp
  have g: "g_calls example_rc running_ctx 42 0xFFFFFFFF 4294967295 =
      (replicate 4294967295 (Inr 1),
       running_ctx\<lparr>guard_map := (guard_map running_ctx)(42 \<mapsto> 0xFFFFFFFF)\<rparr>)"
    using g_calls_below [OF h k, where rc = example_rc] by simp
  show ?thesis
    unfolding g by (simp add: hook_g_def Let_def running_ctx_def example_ctx_def)
qed

section \<open>Hook floats\<close>

lemmas float_consts = maxMantissa_def minMantissa_def maxExponent_def minExponent_def

lemma float_one_value: "float_one rc = 0x54838D7EA4C68000"
  by (simp add: float_one_def float_one_internal_def make_float_def Let_def set_mantissa_def
      set_exponent_def set_sign_def is_negative_def invert_sign_def get_mantissa_def
      float_consts word_sless_alt)

text \<open>
  Claim C5. The claim bounds the mantissa of every non-zero, non-error value a float
  operation returns. \<open>float_mantissa_set\<close> breaks it: \<open>set_mantissa\<close> only rejects a mantissa
  above \<open>maxMantissa\<close>, so on the float one and the mantissa 5 the call returns a positive,
  non-zero value whose mantissa is 5, a value that the host calls' own validity check
  \<open>RETURN_IF_INVALID_FLOAT\<close> rejects.
\<close>

theorem float_mantissa_set_undersized:
  "float_mantissa_set rc (float_one rc) 5 = 0x5480000000000005 \<and>
   \<not> (0x5480000000000005 :: i64) <s 0 \<and>
   get_mantissa rc 0x5480000000000005 = 5 \<and>
   get_mantissa rc 0x5480000000000005 < minMantissa \<and>
   is_invalid_float rc 0x5480000000000005"
  by (simp add: float_one_value float_mantissa_set_def is_invalid_float_def Let_def
      set_mantissa_def get_mantissa_def get_exponent_def float_consts word_sless_alt)


subsection \<open>Words as numbers\<close>


































section \<open>float_sto followed by float_sto_set\<close>

subsection \<open>Guest memory after a write\<close>































section \<open>Reading a state entry after deleting it\<close>

lemma read_mem_empty: "read_mem mem p 0 = []"
  by (simp add: read_mem_def)

lemma cache_find_put: "cache_find (cache_put k v m) k = Some v"
  by (induction m) (auto simp add: cache_find_def)

lemma data_as_int64_Nil: "data_as_int64 [] = Inr 0"
  by (simp add: data_as_int64_def)

lemma state_return_empty:
  "unat write_ptr + unat write_len \<le> length mem \<Longrightarrow>
     state_return mem hookCtx write_ptr write_len [] = (Inr 0, mem, hookCtx)"
  by (simp add: state_return_def data_as_int64_Nil WRITE_WASM_MEMORY_AND_RETURN_def
      WRITE_WASM_MEMORY_def setBytes_def)

text \<open>
  Claim C2. After a \<open>state_set\<close> with a zero-length value has succeeded for a key, the cache
  holds the key with an empty blob, and a \<open>state\<close> read of that key in the same invocation
  finds the cache entry: it returns 0 (the length of the empty data), writes nothing, and
  never reaches the \<open>DOESNT_EXIST\<close> branch.
\<close>

theorem state_after_delete_returns_zero:
  assumes set: "state_set view hookCtx mem read_ptr 0 kread_ptr kread_len = (Inr n, ctx1)"
    and wb: "unat write_ptr + unat write_len \<le> length mem"
  shows "state view ctx1 mem write_ptr write_len kread_ptr kread_len = (Inr 0, mem, ctx1)"
proof -
  from set have kb: "\<not> NOT_IN_BOUNDS kread_ptr 32 (length mem)"
    and kl: "\<not> kread_len > 32" "\<not> kread_len < 1"
    by (auto simp add: state_set_def split: if_splits option.splits)
  define src where "src = read_mem mem (unat kread_ptr) (unat kread_len)"
  have ukl: "unat kread_len \<le> 32" "1 \<le> unat kread_len"
    using kl by (simp_all add: word_less_nat_alt not_less word_le_nat_alt)
  from kb have kb': "unat kread_ptr + 32 \<le> length mem" by (simp add: NOT_IN_BOUNDS_iff)
  with ukl have ls: "length src = unat kread_len" by (simp add: src_def read_mem_def)
  define key where "key = replicate (32 - length src) 0 @ src"
  have mk: "make_state_key src = Some key"
    using ls ukl by (simp add: make_state_key_def key_def)
  from set have c1: "ctx1 = hookCtx\<lparr>result := (result hookCtx)
        \<lparr>changedState := cache_put key (True, []) (changedState (result hookCtx))\<rparr>\<rparr>"
    using mk
    by (auto simp add: state_set_def Let_def read_mem_empty simp flip: src_def
        split: if_splits option.splits)
  have kin: "\<not> NOT_IN_BOUNDS kread_ptr (unat kread_len) (length mem)"
    using kb' ukl by (simp add: NOT_IN_BOUNDS_u32)
  have win: "\<not> NOT_IN_BOUNDS write_ptr (unat write_len) (length mem)"
    using wb by (simp add: NOT_IN_BOUNDS_u32)
  have a0: "\<not> NOT_IN_BOUNDS 0 0 (length mem)"
    by (simp add: NOT_IN_BOUNDS_def)
  have hit: "cache_find (changedState (result ctx1)) key = Some (True, [])"
    by (simp add: c1 cache_find_put)
  show ?thesis
    using kl
    by (simp add: state_def state_foreign_def Let_def kin win a0 mk hit
        state_return_empty [OF wb] flip: src_def)
qed

theorem state_after_delete_returns_zero_witness:
  "state_set example_view example_ctx (replicate 65536 0) 0 0 64 32 =
     (Inr 0, example_ctx\<lparr>result := (result example_ctx)
        \<lparr>changedState := [(replicate 32 0, True, [])]\<rparr>\<rparr>) \<and>
   state example_view
     (example_ctx\<lparr>result := (result example_ctx)
        \<lparr>changedState := [(replicate 32 0, True, [])]\<rparr>\<rparr>)
     (replicate 65536 0) 128 32 64 32 =
     (Inr 0, replicate 65536 0,
      example_ctx\<lparr>result := (result example_ctx)
        \<lparr>changedState := [(replicate 32 0, True, [])]\<rparr>\<rparr>)"
proof -
  have s: "state_set example_view example_ctx (replicate 65536 0) 0 0 64 32 =
     (Inr 0, example_ctx\<lparr>result := (result example_ctx)
        \<lparr>changedState := [(replicate 32 0, True, [])]\<rparr>\<rparr>)"
    by (simp add: state_set_def NOT_IN_BOUNDS_def example_view_def make_state_key_def
        read_mem_def Let_def example_ctx_def)
  have w: "unat (128::u32) + unat (32::u32) \<le> length (replicate 65536 (0::u8))" by simp
  show ?thesis
    using state_after_delete_returns_zero [OF s w] s by simp
qed

section \<open>The emission count\<close>

lemma otxn_generation_keeps:
  "otxn_generation env c = (g, c') \<Longrightarrow>
     result c' = result c \<and> expected_etxn_count c' = expected_etxn_count c \<and>
     burden c' = burden c \<and> fee_base c' = fee_base c \<and> nonce_used c' = nonce_used c"
  by (auto simp add: otxn_generation_def Let_def split: if_splits option.splits)

lemma etxn_generation_keeps:
  "etxn_generation env c = (g, c') \<Longrightarrow>
     result c' = result c \<and> expected_etxn_count c' = expected_etxn_count c \<and>
     burden c' = burden c \<and> fee_base c' = fee_base c \<and> nonce_used c' = nonce_used c"
  by (auto simp add: etxn_generation_def split: prod.splits dest: otxn_generation_keeps)

lemma otxn_burden_keeps:
  "otxn_burden env c = (b, c') \<Longrightarrow>
     result c' = result c \<and> expected_etxn_count c' = expected_etxn_count c \<and>
     fee_base c' = fee_base c \<and> nonce_used c' = nonce_used c"
  by (auto simp add: otxn_burden_def Let_def split: if_splits option.splits)

lemma etxn_burden_keeps:
  "etxn_burden rc env c = (b, c') \<Longrightarrow>
     result c' = result c \<and> expected_etxn_count c' = expected_etxn_count c \<and>
     fee_base c' = fee_base c \<and> nonce_used c' = nonce_used c"
  by (auto simp add: etxn_burden_def Let_def split: if_splits prod.splits dest: otxn_burden_keeps)

lemma etxn_fee_base_keeps:
  "etxn_fee_base rc env c n = (f, c') \<Longrightarrow>
     result c' = result c \<and> expected_etxn_count c' = expected_etxn_count c"
  by (auto simp add: etxn_fee_base_def Let_def split: if_splits prod.splits dest: etxn_burden_keeps)

lemma emit_cases:
  assumes "emit rc env c mem p l = (r, c')"
  shows "expected_etxn_count c' = expected_etxn_count c \<and>
     ((\<exists>e. r = Inl e \<and> emittedTxn (result c') = emittedTxn (result c)) \<or>
      (r = Inr (uint l) \<and>
       emittedTxn (result c') = emittedTxn (result c) @ [read_mem mem (unat p) (unat l)] \<and>
       int (length (emittedTxn (result c))) < expected_etxn_count c))"
  using assms
  by (auto simp add: emit_def Let_def split: if_splits option.splits prod.splits
      dest!: etxn_generation_keeps etxn_burden_keeps etxn_fee_base_keeps)


lemma length_filter_zip_snd:
  "length xs = length ys \<Longrightarrow>
     length (filter (\<lambda>(x, y). P y) (zip xs ys)) = length (filter P ys)"
  by (induction xs ys rule: list_induct2) simp_all

lemma emit_calls_run:
  assumes "emit_calls rc env c calls = (rs, c')"
    and "int (length (emittedTxn (result c))) \<le> expected_etxn_count c"
  shows "expected_etxn_count c' = expected_etxn_count c \<and>
         length rs = length calls \<and>
         emittedTxn (result c') = emittedTxn (result c) @
           map (\<lambda>((mem, p, l), r). read_mem mem (unat p) (unat l))
             (filter (\<lambda>(call, r). \<not> isl r) (zip calls rs)) \<and>
         length (emittedTxn (result c')) =
           length (emittedTxn (result c)) + length (filter (\<lambda>r. \<not> isl r) rs) \<and>
         int (length (emittedTxn (result c'))) \<le> expected_etxn_count c"
  using assms
proof (induction calls arbitrary: c rs c')
  case Nil
  then show ?case by simp
next
  case (Cons call calls)
  obtain mem p l where call: "call = (mem, p, l)" by (cases call) auto
  obtain r c1 where e: "emit rc env c mem p l = (r, c1)" by (cases "emit rc env c mem p l") auto
  obtain rs1 c2 where t: "emit_calls rc env c1 calls = (rs1, c2)"
    by (cases "emit_calls rc env c1 calls") auto
  from Cons.prems(1) call e t have rs: "rs = r # rs1" and c': "c' = c2" by simp_all
  note ec = emit_cases [OF e]
  from ec Cons.prems(2) have le1: "int (length (emittedTxn (result c1))) \<le> expected_etxn_count c1"
    by auto
  note IH = Cons.IH [OF t le1]
  from ec show ?case
  proof (elim conjE disjE exE)
    fix e'
    assume "expected_etxn_count c1 = expected_etxn_count c" "r = Inl e'"
      "emittedTxn (result c1) = emittedTxn (result c)"
    with IH show ?thesis by (simp add: rs c' call length_filter_zip_snd)
  next
    assume "expected_etxn_count c1 = expected_etxn_count c" "r = Inr (uint l)"
      "emittedTxn (result c1) = emittedTxn (result c) @ [read_mem mem (unat p) (unat l)]"
    with IH show ?thesis by (simp add: rs c' call length_filter_zip_snd)
  qed
qed

lemma emit_full:
  assumes "\<not> NOT_IN_BOUNDS p (unat l) (length mem)"
    and "0 \<le> expected_etxn_count c"
    and "int (length (emittedTxn (result c))) \<ge> expected_etxn_count c"
  shows "emit rc env c mem p l = (Inl TOO_MANY_EMITTED_TXN, c)"
  using assms by (simp add: emit_def)

text \<open>
  Claim C3. After \<open>etxn_reserve(count)\<close> has succeeded on a context whose queue is empty, for
  every run of \<open>emit\<close> calls: the queue holds exactly the blobs of the calls that succeeded,
  in order, so each success appended one transaction; at most \<open>count\<close> calls succeeded; and
  once \<open>count\<close> calls have succeeded, every further call whose buffer lies inside guest
  memory returns \<open>TOO_MANY_EMITTED_TXN\<close> and changes nothing.
\<close>

theorem emit_after_reserve:
  assumes res: "etxn_reserve env hookCtx count = (Inr n, ctx0)"
    and empty: "emittedTxn (result hookCtx) = []"
    and run: "emit_calls rc env ctx0 calls = (rs, ctx)"
  shows "length rs = length calls \<and>
         emittedTxn (result ctx) =
           map (\<lambda>((mem, p, l), r). read_mem mem (unat p) (unat l))
             (filter (\<lambda>(call, r). \<not> isl r) (zip calls rs)) \<and>
         length (filter (\<lambda>r. \<not> isl r) rs) \<le> unat count \<and>
         (length (filter (\<lambda>r. \<not> isl r) rs) = unat count \<longrightarrow>
            (\<forall>mem p l. \<not> NOT_IN_BOUNDS p (unat l) (length mem) \<longrightarrow>
               emit rc env ctx mem p l = (Inl TOO_MANY_EMITTED_TXN, ctx)))"
proof -
  from res have e0: "expected_etxn_count ctx0 = uint count"
    and r0: "result ctx0 = result hookCtx"
    by (auto simp add: etxn_reserve_def split: if_splits)
  have le: "int (length (emittedTxn (result ctx0))) \<le> expected_etxn_count ctx0"
    by (simp add: e0 r0 empty)
  note R = emit_calls_run [OF run le]
  from R have "length (emittedTxn (result ctx)) =
      length (emittedTxn (result ctx0)) + length (filter (\<lambda>r. \<not> isl r) rs)"
    by blast
  then have len: "length (emittedTxn (result ctx)) = length (filter (\<lambda>r. \<not> isl r) rs)"
    by (simp add: r0 empty)
  from R have ex: "expected_etxn_count ctx = uint count" by (simp add: e0)
  from R have "int (length (emittedTxn (result ctx))) \<le> expected_etxn_count ctx0" by blast
  then have "int (length (emittedTxn (result ctx))) \<le> uint count" by (simp only: e0)
  then have "int (length (filter (\<lambda>r. \<not> isl r) rs)) \<le> int (unat count)"
    by (simp only: len uint_nat)
  then have bound: "length (filter (\<lambda>r. \<not> isl r) rs) \<le> unat count"
    by (simp only: of_nat_le_iff)
  from R have rl: "length rs = length calls" by blast
  from R have em: "emittedTxn (result ctx) =
           map (\<lambda>((mem, p, l), r). read_mem mem (unat p) (unat l))
             (filter (\<lambda>(call, r). \<not> isl r) (zip calls rs))"
    by (simp add: r0 empty)
  have full: "emit rc env ctx mem p l = (Inl TOO_MANY_EMITTED_TXN, ctx)"
    if "length (filter (\<lambda>r. \<not> isl r) rs) = unat count"
      and "\<not> NOT_IN_BOUNDS p (unat l) (length mem)" for mem p l
    using that by (intro emit_full) (simp_all add: ex len)
  from rl em bound full show ?thesis by blast
qed


lemmas emit_example_defs =
  emit_def etxn_generation_def otxn_generation_def etxn_burden_def otxn_burden_def
  etxn_fee_base_def NOT_IN_BOUNDS_def read_mem_def Let_def word_sless_alt word_less_nat_alt
  example_env_def example_child_def example_otxn_def nonce_ctx_def example_ctx_def
  list_ex_iff

lemma reserve_example:
  "etxn_reserve example_env nonce_ctx 1 = (Inr 1, nonce_ctx\<lparr>expected_etxn_count := 1\<rparr>)"
  by (simp add: etxn_reserve_def example_env_def nonce_ctx_def example_ctx_def
      word_less_nat_alt)

lemma emit_example_ok:
  "emit example_rc example_env (nonce_ctx\<lparr>expected_etxn_count := 1\<rparr>)
       (replicate 65536 0) 0 200 =
     (Inr 200, nonce_ctx\<lparr>expected_etxn_count := 1, fee_base := 68750000,
        result := (result nonce_ctx)\<lparr>emittedTxn := [replicate 200 0]\<rparr>\<rparr>)"
  by (simp add: emit_example_defs)

lemma emit_example_fail:
  "emit example_rc example_env (nonce_ctx\<lparr>expected_etxn_count := 1\<rparr>)
       (replicate 65536 0) 0 100 =
     (Inl EMISSION_FAILURE, nonce_ctx\<lparr>expected_etxn_count := 1\<rparr>)"
  by (simp add: emit_example_defs)


theorem emit_after_reserve_witness:
  "etxn_reserve example_env nonce_ctx 1 = (Inr 1, nonce_ctx\<lparr>expected_etxn_count := 1\<rparr>) \<and>
   emittedTxn (result nonce_ctx) = [] \<and>
   emit_calls example_rc example_env (nonce_ctx\<lparr>expected_etxn_count := 1\<rparr>)
       [(replicate 65536 0, 0, 200)] =
     ([Inr 200], nonce_ctx\<lparr>expected_etxn_count := 1, fee_base := 68750000,
        result := (result nonce_ctx)\<lparr>emittedTxn := [replicate 200 0]\<rparr>\<rparr>) \<and>
   emit example_rc example_env
       (nonce_ctx\<lparr>expected_etxn_count := 1, fee_base := 68750000,
          result := (result nonce_ctx)\<lparr>emittedTxn := [replicate 200 0]\<rparr>\<rparr>)
       (replicate 65536 0) 0 200 =
     (Inl TOO_MANY_EMITTED_TXN,
      nonce_ctx\<lparr>expected_etxn_count := 1, fee_base := 68750000,
        result := (result nonce_ctx)\<lparr>emittedTxn := [replicate 200 0]\<rparr>\<rparr>)"
proof -
  have e: "emittedTxn (result nonce_ctx) = []" by (simp add: nonce_ctx_def example_ctx_def)
  have run: "emit_calls example_rc example_env (nonce_ctx\<lparr>expected_etxn_count := 1\<rparr>)
       [(replicate 65536 0, 0, 200)] =
     ([Inr 200], nonce_ctx\<lparr>expected_etxn_count := 1, fee_base := 68750000,
        result := (result nonce_ctx)\<lparr>emittedTxn := [replicate 200 0]\<rparr>\<rparr>)"
    by (simp add: emit_example_ok)
  note T = emit_after_reserve [OF reserve_example e run]
  from T have full: "\<forall>mem p l. \<not> NOT_IN_BOUNDS p (unat l) (length mem) \<longrightarrow>
      emit example_rc example_env
       (nonce_ctx\<lparr>expected_etxn_count := 1, fee_base := 68750000,
          result := (result nonce_ctx)\<lparr>emittedTxn := [replicate 200 0]\<rparr>\<rparr>) mem p l =
      (Inl TOO_MANY_EMITTED_TXN,
       nonce_ctx\<lparr>expected_etxn_count := 1, fee_base := 68750000,
          result := (result nonce_ctx)\<lparr>emittedTxn := [replicate 200 0]\<rparr>\<rparr>)"
    by (simp add: read_mem_def)
  have nb: "\<not> NOT_IN_BOUNDS 0 (unat (200::u32)) (length (replicate 65536 (0::u8)))"
    by (simp add: NOT_IN_BOUNDS_def)
  from full nb have "emit example_rc example_env
       (nonce_ctx\<lparr>expected_etxn_count := 1, fee_base := 68750000,
          result := (result nonce_ctx)\<lparr>emittedTxn := [replicate 200 0]\<rparr>\<rparr>)
       (replicate 65536 0) 0 200 =
      (Inl TOO_MANY_EMITTED_TXN,
       nonce_ctx\<lparr>expected_etxn_count := 1, fee_base := 68750000,
          result := (result nonce_ctx)\<lparr>emittedTxn := [replicate 200 0]\<rparr>\<rparr>)"
    by blast
  with reserve_example e run show ?thesis by blast
qed

text \<open>
  The \<open>(count + 1)\<close>-th call is not always refused: calls that failed do not use up the
  reservation. Here one emission is reserved, the first call fails (the blob does not parse)
  and the second call succeeds.
\<close>

theorem emit_succeeds_after_failed_emit:
  "etxn_reserve example_env nonce_ctx 1 = (Inr 1, nonce_ctx\<lparr>expected_etxn_count := 1\<rparr>) \<and>
   fst (emit_calls example_rc example_env (nonce_ctx\<lparr>expected_etxn_count := 1\<rparr>)
          [(replicate 65536 0, 0, 100), (replicate 65536 0, 0, 200)]) =
     [Inl EMISSION_FAILURE, Inr 200]"
  by (simp add: reserve_example emit_example_ok emit_example_fail)

section \<open>The fee rule of emit\<close>


















section \<open>The execution record of the commit step\<close>










text \<open>
  The \<open>sfHookHash\<close> field of the record is filled from \<open>hookResult.hookSetTxnID\<close>, the id of the
  \<open>SetHook\<close> transaction, not from \<open>hookResult.hookHash\<close>.
\<close>

lemma commit_hash_field:
  assumes "cclMode \<noteq> 0" and "\<not> is_open view"
  shows "map sfHookHash (hookExecution (snd (commitChangesToLedger ops env hookResult view cclMode)))
           = map sfHookHash (hookExecution view) @ [hookSetTxnID hookResult]"
  using assms
  by (simp add: commitChangesToLedger_def Let_def split: prod.splits)


end
